theory Spec2Isabelle
  imports Complex_Main "HOL-Library.Log_Nat"
begin

section \<open>Strings\<close>

text \<open>
  A Python \<open>str\<close> is a sequence of Unicode code points, so a string is modelled as the
  list of its code points. \<open>ascii\<close> turns an ASCII literal into such a list.
\<close>

type_synonym pystr = "nat list"

definition ascii :: "string \<Rightarrow> pystr" where
  "ascii s = map of_char s"

text \<open>The code points for which \<open>str.isspace\<close> holds; \<open>str.strip()\<close> removes them at both ends.\<close>

definition isspace :: "nat \<Rightarrow> bool" where
  "isspace c \<longleftrightarrow>
     (9 \<le> c \<and> c \<le> 13) \<or> (28 \<le> c \<and> c \<le> 32) \<or> c = 133 \<or> c = 160 \<or> c = 5760 \<or>
     (8192 \<le> c \<and> c \<le> 8202) \<or> c = 8232 \<or> c = 8233 \<or> c = 8239 \<or> c = 8287 \<or> c = 12288"

definition strip :: "pystr \<Rightarrow> pystr" where
  "strip s = rev (dropWhile isspace (rev (dropWhile isspace s)))"

section \<open>Floats\<close>

text \<open>
  A Python \<open>float\<close> is an IEEE 754 binary64 value: a sign and a magnitude for the finite
  values (so that \<open>Finite True 0\<close> is \<open>-0.0\<close>), the two infinities, and NaN. The magnitude
  is a rational number; the operations below keep it among the values that binary64 has.
\<close>

datatype pyfloat = Finite bool rat | Infinity bool | NaN

definition pow2 :: "int \<Rightarrow> rat" where
  "pow2 e = (if 0 \<le> e then 2 ^ nat e else 1 / 2 ^ nat (- e))"

text \<open>The exponent \<open>e\<close> with \<open>2 ^ e \<le> x < 2 ^ (e + 1)\<close>, for positive \<open>x\<close>.\<close>

definition ilog2 :: "rat \<Rightarrow> int" where
  "ilog2 x =
     (if 1 \<le> x then bitlen \<lfloor>x\<rfloor> - 1
      else (let k = bitlen \<lfloor>1 / x\<rfloor> - 1 in if pow2 (- k) \<le> x then - k else - k - 1))"

definition round_half_even :: "rat \<Rightarrow> int" where
  "round_half_even q =
     (let n = \<lfloor>q\<rfloor>; r = q - of_int n
      in if r < 1 / 2 then n else if 1 / 2 < r then n + 1 else if even n then n else n + 1)"

text \<open>
  Rounding a magnitude to binary64, to nearest with ties to even: 53 bits of precision,
  the smallest exponent \<open>-1022\<close> (below it the values are subnormal, multiples of
  \<open>2 ^ -1074\<close>), and \<open>None\<close> for a result of \<open>2 ^ 1024\<close> or more, which overflows.
\<close>

definition round_binary64 :: "rat \<Rightarrow> rat option" where
  "round_binary64 x =
     (if x = 0 then Some 0
      else (let q = max (ilog2 x) (- 1022) - 52;
                r = of_int (round_half_even (x / pow2 q)) * pow2 q
            in if r < pow2 1024 then Some r else None))"

definition mk_float :: "bool \<Rightarrow> rat \<Rightarrow> pyfloat" where
  "mk_float s x = (case round_binary64 x of Some m \<Rightarrow> Finite s m | None \<Rightarrow> Infinity s)"

text \<open>The values of the type that are floats: the magnitude is one binary64 has.\<close>

fun is_float :: "pyfloat \<Rightarrow> bool" where
  "is_float (Finite s m) = (0 \<le> m \<and> round_binary64 m = Some m)"
| "is_float (Infinity s) = True"
| "is_float NaN = True"



definition signed :: "bool \<Rightarrow> rat \<Rightarrow> rat" where
  "signed s m = (if s then - m else m)"

text \<open>\<open>abs(x)\<close>, the truth value of a float (\<open>x != 0.0\<close>), and \<open>a > b\<close>, \<open>a <= b\<close>.\<close>

fun fabs :: "pyfloat \<Rightarrow> pyfloat" where
  "fabs (Finite s m) = Finite False m"
| "fabs (Infinity s) = Infinity False"
| "fabs NaN = NaN"

fun truthy :: "pyfloat \<Rightarrow> bool" where
  "truthy (Finite s m) = (m \<noteq> 0)"
| "truthy (Infinity s) = True"
| "truthy NaN = True"

fun fgt :: "pyfloat \<Rightarrow> pyfloat \<Rightarrow> bool" where
  "fgt NaN b = False"
| "fgt a NaN = False"
| "fgt (Infinity s) (Infinity t) = (\<not> s \<and> t)"
| "fgt (Infinity s) (Finite t y) = (\<not> s)"
| "fgt (Finite s x) (Infinity t) = t"
| "fgt (Finite s x) (Finite t y) = (signed t y < signed s x)"


text \<open>\<open>a * b\<close> on floats.\<close>

fun fmul :: "pyfloat \<Rightarrow> pyfloat \<Rightarrow> pyfloat" where
  "fmul NaN b = NaN"
| "fmul a NaN = NaN"
| "fmul (Infinity s) (Infinity t) = Infinity (s \<noteq> t)"
| "fmul (Infinity s) (Finite t y) = (if y = 0 then NaN else Infinity (s \<noteq> t))"
| "fmul (Finite s x) (Infinity t) = (if x = 0 then NaN else Infinity (s \<noteq> t))"
| "fmul (Finite s x) (Finite t y) = mk_float (s \<noteq> t) (x * y)"

text \<open>\<open>a / b\<close> on floats; \<open>None\<close> is the \<open>ZeroDivisionError\<close> of a zero divisor.\<close>

fun truediv :: "pyfloat \<Rightarrow> pyfloat \<Rightarrow> pyfloat option" where
  "truediv a (Finite t y) =
     (if y = 0 then None
      else (case a of
              Finite s x \<Rightarrow> Some (mk_float (s \<noteq> t) (x / y))
            | Infinity s \<Rightarrow> Some (Infinity (s \<noteq> t))
            | NaN \<Rightarrow> Some NaN))"
| "truediv NaN (Infinity t) = Some NaN"
| "truediv (Infinity s) (Infinity t) = Some NaN"
| "truediv (Finite s x) (Infinity t) = Some (Finite (s \<noteq> t) 0)"
| "truediv a NaN = Some NaN"

text \<open>
  \<open>max(xs, default=d)\<close>: the first element, replaced by each later one that is greater.
\<close>

fun max_from :: "pyfloat \<Rightarrow> pyfloat list \<Rightarrow> pyfloat" where
  "max_from cur [] = cur"
| "max_from cur (x # xs) = max_from (if fgt x cur then x else cur) xs"

definition max_default :: "pyfloat \<Rightarrow> pyfloat list \<Rightarrow> pyfloat" where
  "max_default d xs = (case xs of [] \<Rightarrow> d | x # rest \<Rightarrow> max_from x rest)"

subsection \<open>The built-in \<open>float\<close> on ASCII text\<close>

text \<open>
  \<open>py_float\<close> follows CPython's \<open>float(str)\<close> on ASCII text: blanks are removed at both
  ends, an underscore is allowed between two digits only, then come an optional sign and
  either \<open>inf\<close>, \<open>infinity\<close> or \<open>nan\<close> in any case, or a decimal numeral with an optional
  fraction and an optional exponent, rounded to the nearest float. Everything else is a
  \<open>ValueError\<close>, here \<open>None\<close>. CPython also reads the decimal digits of other scripts; they
  are not part of this model, which is applied to ASCII cells only.
\<close>

definition is_digit :: "nat \<Rightarrow> bool" where
  "is_digit c \<longleftrightarrow> 48 \<le> c \<and> c \<le> 57"

definition lower :: "nat \<Rightarrow> nat" where
  "lower c = (if 65 \<le> c \<and> c \<le> 90 then c + 32 else c)"

definition float_space :: "nat \<Rightarrow> bool" where
  "float_space c \<longleftrightarrow> (9 \<le> c \<and> c \<le> 13) \<or> c = 32 \<or> (127 \<le> c \<and> isspace c)"

fun drop_underscores :: "nat \<Rightarrow> pystr \<Rightarrow> pystr option" where
  "drop_underscores prev [] = (if prev = 95 then None else Some [])"
| "drop_underscores prev (c # cs) =
     (if c = 95 then (if is_digit prev then drop_underscores c cs else None)
      else if prev = 95 \<and> \<not> is_digit c then None
      else map_option ((#) c) (drop_underscores c cs))"

definition digits_value :: "pystr \<Rightarrow> nat" where
  "digits_value ds = foldl (\<lambda>a c. 10 * a + (c - 48)) 0 ds"

text \<open>The exponent part: nothing, or \<open>e\<close> or \<open>E\<close>, an optional sign and at least one digit.\<close>

definition exponent_part :: "pystr \<Rightarrow> int option" where
  "exponent_part r =
     (case r of
        [] \<Rightarrow> Some 0
      | c # r1 \<Rightarrow>
          if lower c \<noteq> 101 then None
          else (let (neg, ds) = (case r1 of
                                   [] \<Rightarrow> (False, [])
                                 | d # r2 \<Rightarrow> if d = 45 then (True, r2)
                                             else if d = 43 then (False, r2) else (False, r1))
                in if ds = [] \<or> \<not> list_all is_digit ds then None
                   else Some (if neg then - int (digits_value ds) else int (digits_value ds))))"

definition pow10 :: "int \<Rightarrow> rat" where
  "pow10 e = (if 0 \<le> e then 10 ^ nat e else 1 / 10 ^ nat (- e))"

definition py_float :: "pystr \<Rightarrow> pyfloat option" where
  "py_float s =
     (case drop_underscores 0 (rev (dropWhile float_space (rev (dropWhile float_space s)))) of
        None \<Rightarrow> None
      | Some u \<Rightarrow>
          (let (neg, body) = (case u of
                                [] \<Rightarrow> (False, [])
                              | c # r \<Rightarrow> if c = 45 then (True, r)
                                         else if c = 43 then (False, r) else (False, u));
               low = map lower body
           in if low = ascii ''inf'' \<or> low = ascii ''infinity'' then Some (Infinity neg)
              else if low = ascii ''nan'' then Some NaN
              else (let ip = takeWhile is_digit body;
                        r1 = dropWhile is_digit body;
                        (fp, r2) = (case r1 of
                                      [] \<Rightarrow> ([], [])
                                    | c # r \<Rightarrow> if c = 46
                                               then (takeWhile is_digit r, dropWhile is_digit r)
                                               else ([], r1))
                    in if ip = [] \<and> fp = [] then None
                       else (case exponent_part r2 of
                               None \<Rightarrow> None
                             | Some e \<Rightarrow>
                                 Some (mk_float neg (of_nat (digits_value (ip @ fp)) *
                                                     pow10 (e - int (length fp))))))))"

section \<open>Constants of the module\<close>

text \<open>\<open>DEFAULT_HIGHLIGHT_LABEL\<close>, the four code points U+81EA U+5DF1 U+8CC7 U+7523.\<close>

definition DEFAULT_HIGHLIGHT_LABEL :: pystr where
  "DEFAULT_HIGHLIGHT_LABEL = [0x81EA, 0x5DF1, 0x8CC7, 0x7523]"

text \<open>The placeholder \<open>row[0].strip() or ...\<close> falls back to: U+672A U+8A2D U+5B9A.\<close>

definition UNSET_LABEL :: pystr where
  "UNSET_LABEL = [0x672A, 0x8A2D, 0x5B9A]"

text \<open>\<open>RADAR_ITEMS\<close>: each axis label with its lookup keys, in the order of the source.\<close>

definition RADAR_ITEMS :: "(pystr \<times> pystr list) list" where
  "RADAR_ITEMS =
    [([0x5E73, 0x5747, 0x5358, 0x4FA1, 0x3A, 0x50], [[0x50], [0x5E73, 0x5747, 0x5358, 0x4FA1]]),
     ([0x5909, 0x52D5, 0x5358, 0x4FA1, 0x3A, 0x56], [[0x56], [0x5909, 0x52D5, 0x5358, 0x4FA1]]),
     ([0x58F2, 0x4E0A, 0x500B, 0x6570, 0x3A, 0x51], [[0x51], [0x58F2, 0x4E0A, 0x500B, 0x6570]]),
     ([0x58F2, 0x4E0A, 0x9AD8, 0x3A, 0x50, 0x51], [[0x50, 0x51], [0x58F2, 0x4E0A, 0x9AD8]]),
     ([0x56FA, 0x5B9A, 0x8CBB, 0x3A, 0x46], [[0x46], [0x56FA, 0x5B9A, 0x8CBB]]),
     ([0x7D4C, 0x5E38, 0x5229, 0x76CA, 0x3A, 0x47], [[0x47], [0x7D4C, 0x5E38, 0x5229, 0x76CA]]),
     ([0x81EA, 0x5DF1, 0x8CC7, 0x672C], [[0x81EA, 0x5DF1, 0x8CC7, 0x672C]])]"

section \<open>Parsing the table: \<open>_parse_csv\<close>\<close>

text \<open>
  The three \<open>ValueError\<close>s \<open>_parse_csv\<close> raises, told apart by their message: no rows
  survive the blank-row filter, the header has fewer than two cells, no row gave a chart
  dataset.
\<close>

datatype error = EmptyInputError | MalformedHeaderError | NoNumericDataError

text \<open>
  The dictionaries appended to \<open>chart_datasets\<close> and the dictionary \<open>_parse_csv\<close> returns.
  The type \<open>'f\<close> is the type of floats; \<open>row_lookup\<close> is a Python \<open>dict\<close>.
\<close>

record 'f chart_dataset =
  label :: pystr
  data :: "'f option list"

type_synonym 'f lookup = "pystr \<rightharpoonup> 'f option list"

record 'f parse_state =
  table_rows :: "pystr list list"
  chart_datasets :: "'f chart_dataset list"
  row_lookup :: "'f lookup"

record 'f parsed =
  headers :: "pystr list"
  rows :: "pystr list list"
  periods :: "pystr list"
  datasets :: "'f chart_dataset list"
  lookup_of :: "'f lookup"

text \<open>
  \<open>values[-period_count:] if period_count else values\<close>, then the padding with empty
  strings up to \<open>period_count\<close> cells.
\<close>

definition numeric_segment :: "nat \<Rightarrow> pystr list \<Rightarrow> pystr list" where
  "numeric_segment period_count values =
     (let seg = (if period_count \<noteq> 0 then drop (length values - period_count) values
                 else values)
      in if length seg < period_count
         then seg @ replicate (period_count - length seg) []
         else seg)"

text \<open>
  The loop over the numeric segment. \<open>float_of\<close> stands for the built-in \<open>float\<close> on a
  string: \<open>Some x\<close> when it returns \<open>x\<close>, \<open>None\<close> when it raises \<open>ValueError\<close>. The
  accumulator is the pair \<open>(numeric_values, has_number)\<close>.
\<close>

fun numeric_loop ::
  "(pystr \<Rightarrow> 'f option) \<Rightarrow> pystr list \<Rightarrow> 'f option list \<times> bool \<Rightarrow> 'f option list \<times> bool"
where
  "numeric_loop float_of [] acc = acc"
| "numeric_loop float_of (cell # rest) (numeric_values, has_number) =
     (let v = strip cell in
      if v = [] then numeric_loop float_of rest (numeric_values @ [None], has_number)
      else (case float_of v of
              Some x \<Rightarrow> numeric_loop float_of rest (numeric_values @ [Some x], True)
            | None \<Rightarrow> numeric_loop float_of rest (numeric_values @ [None], has_number)))"

text \<open>What one cell of the numeric segment becomes in \<open>numeric_values\<close>.\<close>

definition cell_value :: "(pystr \<Rightarrow> 'f option) \<Rightarrow> pystr \<Rightarrow> 'f option" where
  "cell_value float_of cell = (if strip cell = [] then None else float_of (strip cell))"

text \<open>\<open>dict.setdefault\<close>: store the value only when the key is absent.\<close>

definition setdefault :: "'f lookup \<Rightarrow> pystr \<Rightarrow> 'f option list \<Rightarrow> 'f lookup" where
  "setdefault m k v = (case m k of None \<Rightarrow> m(k \<mapsto> v) | Some _ \<Rightarrow> m)"

text \<open>The loop over the descriptor cells.\<close>

fun register_descriptors :: "'f lookup \<Rightarrow> pystr list \<Rightarrow> 'f option list \<Rightarrow> 'f lookup" where
  "register_descriptors m [] numeric_values = m"
| "register_descriptors m (descriptor # rest) numeric_values =
     (let d = strip descriptor in
      if d \<noteq> [] then register_descriptors (setdefault m d numeric_values) rest numeric_values
      else register_descriptors m rest numeric_values)"

text \<open>The label of a row: \<open>row[0].strip() or UNSET_LABEL\<close>.\<close>

definition row_label :: "pystr \<Rightarrow> pystr" where
  "row_label cell = (if strip cell \<noteq> [] then strip cell else UNSET_LABEL)"

text \<open>One pass of the body of \<open>for row in rows[1:]\<close>.\<close>

definition process_row ::
  "(pystr \<Rightarrow> 'f option) \<Rightarrow> nat \<Rightarrow> 'f parse_state \<Rightarrow> pystr list \<Rightarrow> 'f parse_state"
where
  "process_row float_of period_count st row =
     (case row of
        [] \<Rightarrow> st
      | first # values \<Rightarrow>
          (let lbl = row_label first;
               st1 = st\<lparr>table_rows := table_rows st @ [lbl # values]\<rparr>;
               (numeric_values, has_number) =
                  numeric_loop float_of (numeric_segment period_count values) ([], False)
           in if has_number then
                (let st2 = st1\<lparr>chart_datasets := chart_datasets st1 @
                                   [\<lparr>label = lbl, data = numeric_values\<rparr>],
                                row_lookup := (row_lookup st1)(lbl \<mapsto> numeric_values)\<rparr>;
                     metadata_columns = int (length values) - int period_count
                 in if metadata_columns > 0 then
                      st2\<lparr>row_lookup := register_descriptors (row_lookup st2)
                                            (take (nat metadata_columns) values) numeric_values\<rparr>
                    else st2)
              else st1))"

text \<open>
  Two abbreviations for the statements below: a row is charted when it is not empty and
  some cell of its numeric segment gives a number, and \<open>dataset_of\<close> is the dictionary
  appended to \<open>chart_datasets\<close> for it.
\<close>

definition charted :: "(pystr \<Rightarrow> 'f option) \<Rightarrow> nat \<Rightarrow> pystr list \<Rightarrow> bool" where
  "charted float_of pc row =
     (row \<noteq> [] \<and> list_ex (\<lambda>c. cell_value float_of c \<noteq> None) (numeric_segment pc (tl row)))"

definition dataset_of :: "(pystr \<Rightarrow> 'f option) \<Rightarrow> nat \<Rightarrow> pystr list \<Rightarrow> 'f chart_dataset" where
  "dataset_of float_of pc row =
     \<lparr>label = row_label (hd row), data = map (cell_value float_of) (numeric_segment pc (tl row))\<rparr>"

definition initial_state :: "'f parse_state" where
  "initial_state = \<lparr>table_rows = [], chart_datasets = [], row_lookup = Map.empty\<rparr>"

text \<open>The filter of the list comprehension: \<open>any(cell.strip() for cell in row)\<close>.\<close>

definition nonblank :: "pystr list \<Rightarrow> bool" where
  "nonblank row = list_ex (\<lambda>cell. strip cell \<noteq> []) row"

text \<open>
  \<open>_parse_csv\<close>, from the rows \<open>csv.reader\<close> yields for the decoded file on: decoding and
  the splitting into cells are the library's.
\<close>

definition parse_csv :: "(pystr \<Rightarrow> 'f option) \<Rightarrow> pystr list list \<Rightarrow> error + 'f parsed" where
  "parse_csv float_of reader_rows =
     (case filter nonblank reader_rows of
        [] \<Rightarrow> Inl EmptyInputError
      | hdrs # body \<Rightarrow>
          if length hdrs < 2 then Inl MalformedHeaderError
          else
            (let pers = tl hdrs;
                 period_count = length pers;
                 st = foldl (process_row float_of period_count) initial_state body
             in if chart_datasets st = [] then Inl NoNumericDataError
                else Inr \<lparr>headers = hdrs, rows = table_rows st, periods = pers,
                          datasets = chart_datasets st, lookup_of = row_lookup st\<rparr>))"

section \<open>Choosing the highlighted dataset: \<open>_build_dataset_options\<close>\<close>

record dataset_option =
  opt_label :: pystr
  checked :: bool

text \<open>
  Every dictionary \<open>_parse_csv\<close> builds has the key \<open>label\<close>, so the default of
  \<open>dataset.get("label", "")\<close> is not reached on them.
\<close>

definition build_dataset_options :: "'f chart_dataset list \<Rightarrow> dataset_option list \<times> pystr" where
  "build_dataset_options dsets =
     (let labels = map label dsets;
          highlight_label =
            (if DEFAULT_HIGHLIGHT_LABEL \<notin> set labels \<and> labels \<noteq> [] then hd labels
             else DEFAULT_HIGHLIGHT_LABEL)
      in (map (\<lambda>l. \<lparr>opt_label = l, checked = (l = highlight_label)\<rparr>) labels, highlight_label))"

section \<open>The radar chart: \<open>_build_radar_chart\<close>\<close>

datatype py_error = ZeroDivisionError | IndexError

record axis_meta_entry =
  meta_label :: pystr
  max_value :: pyfloat

record radar_dataset =
  rd_label :: pystr
  rd_data :: "pyfloat list"
  originalData :: "pyfloat list"

text \<open>
  The loop \<open>for key in keys: if key in row_lookup: ...; break\<close>, which both passes over
  \<open>RADAR_ITEMS\<close> run: the series of the first key that \<open>row_lookup\<close> has.
\<close>

fun resolve :: "'f lookup \<Rightarrow> pystr list \<Rightarrow> 'f option list option" where
  "resolve m [] = None"
| "resolve m (key # keys) = (case m key of Some series \<Rightarrow> Some series | None \<Rightarrow> resolve m keys)"

text \<open>The list \<open>values\<close> of the first pass: \<open>None\<close> entries count as \<open>0.0\<close>.\<close>

definition axis_values :: "pyfloat lookup \<Rightarrow> pystr list \<Rightarrow> pyfloat list" where
  "axis_values m keys =
     (case resolve m keys of
        None \<Rightarrow> []
      | Some series \<Rightarrow> map (\<lambda>val. case val of Some x \<Rightarrow> x | None \<Rightarrow> Finite False 0) series)"

text \<open>One entry of \<open>axis_meta\<close>: \<open>max_value if max_value else 1.0\<close>.\<close>

definition axis_meta_of :: "pyfloat lookup \<Rightarrow> pystr \<times> pystr list \<Rightarrow> axis_meta_entry" where
  "axis_meta_of m item =
     (let mx = max_default (Finite False 0) (map fabs (axis_values m (snd item)))
      in \<lparr>meta_label = fst item, max_value = (if truthy mx then mx else Finite False 1)\<rparr>)"

text \<open>
  The variable \<open>value\<close> of the second pass: the entry of the resolved series at
  \<open>period_index\<close>, and \<open>0.0\<close> when no series resolves, the series is empty or too short, or
  the entry is \<open>None\<close>.
\<close>

definition entry_value :: "pyfloat lookup \<Rightarrow> pystr list \<Rightarrow> nat \<Rightarrow> pyfloat" where
  "entry_value m keys period_index =
     (case resolve m keys of
        None \<Rightarrow> Finite False 0
      | Some series_values \<Rightarrow>
          if series_values \<noteq> [] \<and> period_index < length series_values
          then (case series_values ! period_index of Some x \<Rightarrow> x | None \<Rightarrow> Finite False 0)
          else Finite False 0)"

text \<open>\<open>(value / max_value) * 100 if max_value else 0.0\<close>.\<close>

definition normalize :: "pyfloat \<Rightarrow> pyfloat \<Rightarrow> py_error + pyfloat" where
  "normalize v mx =
     (if truthy mx
      then (case truediv v mx of
              None \<Rightarrow> Inl ZeroDivisionError
            | Some q \<Rightarrow> Inr (fmul q (Finite False 100)))
      else Inr (Finite False 0))"

text \<open>
  The loop over the axes for one period; the accumulator is
  \<open>(normalized_values, original_values)\<close>, and \<open>axis_meta[axis_index]\<close> is an \<open>IndexError\<close>
  out of range.
\<close>

fun axis_loop ::
  "pyfloat lookup \<Rightarrow> axis_meta_entry list \<Rightarrow> nat \<Rightarrow> nat \<Rightarrow> (pystr \<times> pystr list) list \<Rightarrow>
   pyfloat list \<times> pyfloat list \<Rightarrow> py_error + pyfloat list \<times> pyfloat list"
where
  "axis_loop m axis_meta period_index axis_index [] acc = Inr acc"
| "axis_loop m axis_meta period_index axis_index (item # items)
      (normalized_values, original_values) =
     (let v = entry_value m (snd item) period_index in
      if axis_index < length axis_meta then
        (case normalize v (max_value (axis_meta ! axis_index)) of
           Inl e \<Rightarrow> Inl e
         | Inr normalized \<Rightarrow>
             axis_loop m axis_meta period_index (Suc axis_index) items
               (normalized_values @ [normalized], original_values @ [v]))
      else Inl IndexError)"

text \<open>The loop over the periods; the accumulator is \<open>radar_datasets\<close>.\<close>

fun period_loop ::
  "pyfloat lookup \<Rightarrow> axis_meta_entry list \<Rightarrow> nat \<Rightarrow> pystr list \<Rightarrow> radar_dataset list \<Rightarrow>
   py_error + radar_dataset list"
where
  "period_loop m axis_meta period_index [] radar_datasets = Inr radar_datasets"
| "period_loop m axis_meta period_index (period # rest) radar_datasets =
     (case axis_loop m axis_meta period_index 0 RADAR_ITEMS ([], []) of
        Inl e \<Rightarrow> Inl e
      | Inr (normalized_values, original_values) \<Rightarrow>
          period_loop m axis_meta (Suc period_index) rest
            (radar_datasets @
               [\<lparr>rd_label = period, rd_data = normalized_values,
                 originalData = original_values\<rparr>]))"

definition build_radar_chart ::
  "pystr list \<Rightarrow> pyfloat lookup \<Rightarrow>
   py_error + pystr list \<times> radar_dataset list \<times> axis_meta_entry list"
where
  "build_radar_chart pers m =
     (if pers = [] then Inr ([], [], [])
      else (let axis_labels = map fst RADAR_ITEMS;
                axis_meta = map (axis_meta_of m) RADAR_ITEMS
            in case period_loop m axis_meta 0 pers [] of
                 Inl e \<Rightarrow> Inl e
               | Inr radar_datasets \<Rightarrow> Inr (axis_labels, radar_datasets, axis_meta)))"

text \<open>
  For the statements below: the value \<open>normalize\<close> returns, and the dictionary that
  \<open>_build_radar_chart\<close> appends for the period at index \<open>fst ip\<close> named \<open>snd ip\<close>.
\<close>

definition normalized :: "pyfloat \<Rightarrow> pyfloat \<Rightarrow> pyfloat" where
  "normalized v mx = (case normalize v mx of Inr n \<Rightarrow> n | Inl e \<Rightarrow> NaN)"

definition radar_row :: "pyfloat lookup \<Rightarrow> nat \<times> pystr \<Rightarrow> radar_dataset" where
  "radar_row m ip =
     \<lparr>rd_label = snd ip,
      rd_data = map (\<lambda>item. normalized (entry_value m (snd item) (fst ip))
                                (max_value (axis_meta_of m item))) RADAR_ITEMS,
      originalData = map (\<lambda>item. entry_value m (snd item) (fst ip)) RADAR_ITEMS\<rparr>"

text \<open>
  The magnitude of a finite float, and the tables all of whose resolved series hold
  only finite floats (or \<open>None\<close>).
\<close>

fun mag :: "pyfloat \<Rightarrow> rat" where
  "mag (Finite s m) = m"
| "mag (Infinity s) = 0"
| "mag NaN = 0"



text \<open>
  For the scaling of one axis: the key an axis resolves to, a series multiplied entry by
  entry by the float \<open>k\<close>, the entries whose product with the magnitude \<open>c\<close> is a float
  without rounding, and an entry read as the radar chart reads it (\<open>None\<close> as \<open>0.0\<close>).
\<close>

fun resolve_key :: "'f lookup \<Rightarrow> pystr list \<Rightarrow> pystr option" where
  "resolve_key m [] = None"
| "resolve_key m (key # keys) = (if m key \<noteq> None then Some key else resolve_key m keys)"

definition scale_series :: "pyfloat \<Rightarrow> pyfloat option list \<Rightarrow> pyfloat option list" where
  "scale_series k series = map (map_option (fmul k)) series"

definition exact_entry :: "rat \<Rightarrow> pyfloat option \<Rightarrow> bool" where
  "exact_entry c e =
     (case e of
        None \<Rightarrow> True
      | Some (Finite s a) \<Rightarrow> 0 \<le> a \<and> round_binary64 (c * a) = Some (c * a)
      | Some _ \<Rightarrow> False)"

definition entry_float :: "pyfloat option \<Rightarrow> pyfloat" where
  "entry_float e = (case e of Some x \<Rightarrow> x | None \<Rightarrow> Finite False 0)"

section \<open>Example tables\<close>

text \<open>
  A table whose first data row is shorter than the header and whose second is longer,
  and what \<open>_parse_csv\<close> returns for it.
\<close>

definition padding_table :: "pystr list list" where
  "padding_table = [[ascii ''Label'', ascii ''2021'', ascii ''2022''],
         [ascii ''A'', ascii ''1''],
         [ascii ''B'', ascii ''m'', ascii ''1'', ascii ''2'', ascii '' 3 '']]"

definition padding_parsed :: "pyfloat parsed" where
  "padding_parsed = \<lparr>headers = [ascii ''Label'', ascii ''2021'', ascii ''2022''],
          rows = [[ascii ''A'', ascii ''1''],
                  [ascii ''B'', ascii ''m'', ascii ''1'', ascii ''2'', ascii '' 3 '']],
          periods = [ascii ''2021'', ascii ''2022''],
          datasets = [\<lparr>label = ascii ''A'', data = [Some (Finite False 1), None]\<rparr>,
                      \<lparr>label = ascii ''B'', data = [Some (Finite False 2), Some (Finite False 3)]\<rparr>],
          lookup_of = [ascii ''A'' \<mapsto> [Some (Finite False 1), None],
                       ascii ''B'' \<mapsto> [Some (Finite False 2), Some (Finite False 3)],
                       ascii ''m'' \<mapsto> [Some (Finite False 2), Some (Finite False 3)],
                       ascii ''1'' \<mapsto> [Some (Finite False 2), Some (Finite False 3)]]\<rparr>"

text \<open>
  Two tables with one period whose first data row has the descriptor \<open>PQ\<close>: in the
  first the next row has the same descriptor, in the second it has \<open>PQ\<close> as its label.
\<close>

definition alias_table :: "pystr list list" where
  "alias_table = [[ascii ''Label'', ascii ''2021''],
                  [ascii ''Rev'', ascii ''PQ'', ascii ''100''],
                  [ascii ''Cost'', ascii ''PQ'', ascii ''7'']]"

definition alias_parsed :: "pyfloat parsed" where
  "alias_parsed = \<lparr>headers = [ascii ''Label'', ascii ''2021''],
          rows = [[ascii ''Rev'', ascii ''PQ'', ascii ''100''],
                  [ascii ''Cost'', ascii ''PQ'', ascii ''7'']],
          periods = [ascii ''2021''],
          datasets = [\<lparr>label = ascii ''Rev'', data = [Some (Finite False 100)]\<rparr>,
                      \<lparr>label = ascii ''Cost'', data = [Some (Finite False 7)]\<rparr>],
          lookup_of = [ascii ''Rev'' \<mapsto> [Some (Finite False 100)],
                       ascii ''PQ'' \<mapsto> [Some (Finite False 100)],
                       ascii ''Cost'' \<mapsto> [Some (Finite False 7)]]\<rparr>"

definition overwrite_table :: "pystr list list" where
  "overwrite_table = [[ascii ''Label'', ascii ''2021''],
                      [ascii ''Rev'', ascii ''PQ'', ascii ''100''],
                      [ascii ''PQ'', ascii ''5'']]"

definition overwrite_parsed :: "pyfloat parsed" where
  "overwrite_parsed = \<lparr>headers = [ascii ''Label'', ascii ''2021''],
          rows = [[ascii ''Rev'', ascii ''PQ'', ascii ''100''],
                  [ascii ''PQ'', ascii ''5'']],
          periods = [ascii ''2021''],
          datasets = [\<lparr>label = ascii ''Rev'', data = [Some (Finite False 100)]\<rparr>,
                      \<lparr>label = ascii ''PQ'', data = [Some (Finite False 5)]\<rparr>],
          lookup_of = [ascii ''Rev'' \<mapsto> [Some (Finite False 100)],
                       ascii ''PQ'' \<mapsto> [Some (Finite False 5)]]\<rparr>"



definition signed_lookup :: "pyfloat lookup" where
  "signed_lookup = [ascii ''P'' \<mapsto> [Some (Finite True 1), None, Some (Finite False 3)]]"

text \<open>
  The float nearest to one tenth, and a \<open>row_lookup\<close> with the series \<open>[3.0, 4.0]\<close>
  under \<open>P\<close>.
\<close>

definition tenth :: pyfloat where
  "tenth = Finite False (3602879701896397 / 36028797018963968)"

definition ratio_lookup :: "pyfloat lookup" where
  "ratio_lookup = [ascii ''P'' \<mapsto> [Some (Finite False 3), Some (Finite False 4)]]"

section \<open>Facts about rounding\<close>

lemma floor_rat_divide_numeral:
  "\<lfloor>(numeral a :: rat) / numeral b\<rfloor> = numeral a div numeral b"
  by (metis floor_divide_of_int_eq of_int_numeral)

lemma floor_rat_one_divide_numeral:
  "\<lfloor>(1 :: rat) / numeral b\<rfloor> = 1 div numeral b"
  by (metis floor_divide_of_int_eq of_int_1 of_int_numeral)

lemma pow2_powi: "pow2 e = 2 powi e"
  by (simp add: pow2_def power_int_def field_simps)

lemma pow2_pos: "0 < pow2 e"
  by (simp add: pow2_powi)





section \<open>Facts about the loops of \<open>_parse_csv\<close>\<close>

lemma numeric_loop_eq:
  "numeric_loop float_of seg (nv, h) =
     (nv @ map (cell_value float_of) seg,
      h \<or> list_ex (\<lambda>c. cell_value float_of c \<noteq> None) seg)"
  by (induction seg arbitrary: nv h) (auto simp: cell_value_def Let_def split: option.splits)

lemma length_numeric_segment: "0 < pc \<Longrightarrow> length (numeric_segment pc vs) = pc"
  by (auto simp: numeric_segment_def Let_def)

lemma setdefault_keep: "m k = Some v \<Longrightarrow> setdefault m d nv k = Some v"
  by (cases "d = k") (auto simp: setdefault_def split: option.splits)

lemma register_descriptors_keep:
  "m k = Some v \<Longrightarrow> register_descriptors m ds nv k = Some v"
  by (induction ds arbitrary: m) (simp_all add: Let_def setdefault_keep)

lemma process_row_uncharted:
  "\<not> charted float_of pc row \<Longrightarrow>
   chart_datasets (process_row float_of pc st row) = chart_datasets st \<and>
   row_lookup (process_row float_of pc st row) = row_lookup st"
  by (cases row) (auto simp: process_row_def charted_def numeric_loop_eq Let_def)

lemma process_row_charted_datasets:
  "charted float_of pc row \<Longrightarrow>
   chart_datasets (process_row float_of pc st row) =
     chart_datasets st @ [dataset_of float_of pc row]"
  by (cases row) (auto simp: process_row_def charted_def dataset_of_def numeric_loop_eq Let_def)


lemma process_row_table:
  "table_rows (process_row float_of pc st row) =
     table_rows st @ (if row = [] then [] else [row_label (hd row) # tl row])"
  by (cases row) (auto simp: process_row_def numeric_loop_eq Let_def)

lemma process_row_keep:
  "row_lookup st k = Some v \<Longrightarrow> \<not> (charted float_of pc row \<and> row_label (hd row) = k) \<Longrightarrow>
   row_lookup (process_row float_of pc st row) k = Some v"
  by (cases row)
     (auto simp: process_row_def charted_def numeric_loop_eq Let_def register_descriptors_keep)

lemma foldl_datasets:
  "chart_datasets (foldl (process_row float_of pc) st body) =
     chart_datasets st @ map (dataset_of float_of pc) (filter (charted float_of pc) body)"
proof (induction body arbitrary: st)
  case Nil
  show ?case by simp
next
  case (Cons row body)
  show ?case
  proof (cases "charted float_of pc row")
    case True
    then show ?thesis by (simp add: Cons.IH process_row_charted_datasets)
  next
    case False
    then show ?thesis by (simp add: Cons.IH process_row_uncharted)
  qed
qed

lemma foldl_table:
  "table_rows (foldl (process_row float_of pc) st body) =
     table_rows st @ map (\<lambda>row. row_label (hd row) # tl row) (filter (\<lambda>row. row \<noteq> []) body)"
  by (induction body arbitrary: st) (simp_all add: process_row_table)

lemma foldl_keep:
  "row_lookup st k = Some v \<Longrightarrow>
   list_all (\<lambda>row. \<not> (charted float_of pc row \<and> row_label (hd row) = k)) later \<Longrightarrow>
   row_lookup (foldl (process_row float_of pc) st later) k = Some v"
  by (induction later arbitrary: st) (simp_all add: process_row_keep)

lemma nonblank_nonempty: "nonblank row \<Longrightarrow> row \<noteq> []"
  by (auto simp: nonblank_def)

lemma parse_csv_Inr:
  assumes "parse_csv float_of reader_rows = Inr p"
  obtains hdrs body where
    "filter nonblank reader_rows = hdrs # body" "2 \<le> length hdrs"
    "headers p = hdrs" "periods p = tl hdrs"
    "rows p = table_rows (foldl (process_row float_of (length hdrs - 1)) initial_state body)"
    "datasets p = chart_datasets (foldl (process_row float_of (length hdrs - 1)) initial_state body)"
    "lookup_of p = row_lookup (foldl (process_row float_of (length hdrs - 1)) initial_state body)"
    "datasets p \<noteq> []"
  using assms
  by (auto simp: parse_csv_def Let_def split: list.splits if_splits)

section \<open>Facts about the loops of \<open>_build_radar_chart\<close>\<close>

lemma truediv_truthy: "truthy mx \<Longrightarrow> \<exists>q. truediv v mx = Some q"
  by (cases mx; cases v) simp_all

lemma normalize_total: "normalize v mx = Inr (normalized v mx)"
proof (cases "truthy mx")
  case True
  then obtain q where "truediv v mx = Some q" using truediv_truthy by blast
  with True show ?thesis by (simp add: normalize_def normalized_def)
next
  case False
  then show ?thesis by (simp add: normalize_def normalized_def)
qed

lemma axis_loop_eq:
  "axis_index + length items \<le> length axis_meta \<Longrightarrow>
   axis_loop m axis_meta period_index axis_index items (nv, ov) =
     Inr (nv @ map (\<lambda>(item, me). normalized (entry_value m (snd item) period_index) (max_value me))
                 (zip items (drop axis_index axis_meta)),
          ov @ map (\<lambda>item. entry_value m (snd item) period_index) items)"
proof (induction items arbitrary: axis_index nv ov)
  case Nil
  then show ?case by simp
next
  case (Cons item items)
  then have lt: "axis_index < length axis_meta" and
    le: "Suc axis_index + length items \<le> length axis_meta" by simp_all
  have d: "drop axis_index axis_meta = axis_meta ! axis_index # drop (Suc axis_index) axis_meta"
    using lt by (simp add: Cons_nth_drop_Suc)
  show ?case
    using lt by (simp add: Let_def normalize_total Cons.IH [OF le] d)
qed

lemma axis_loop_items:
  "axis_loop m (map (axis_meta_of m) RADAR_ITEMS) period_index 0 RADAR_ITEMS ([], []) =
     Inr (rd_data (radar_row m (period_index, p)), originalData (radar_row m (period_index, p)))"
  by (simp add: axis_loop_eq radar_row_def zip_map2 zip_same_conv_map comp_def case_prod_beta)

lemma period_loop_eq:
  "period_loop m (map (axis_meta_of m) RADAR_ITEMS) period_index pers acc =
     Inr (acc @ map (radar_row m) (enumerate period_index pers))"
proof (induction pers arbitrary: period_index acc)
  case Nil
  show ?case by simp
next
  case (Cons p pers)
  have r: "\<lparr>rd_label = p, rd_data = rd_data (radar_row m (period_index, p)),
            originalData = originalData (radar_row m (period_index, p))\<rparr> =
           radar_row m (period_index, p)"
    by (simp add: radar_row_def)
  show ?case
    by (simp add: axis_loop_items [of m period_index p] Cons.IH r)
qed

lemma build_radar_chart_eq:
  "pers \<noteq> [] \<Longrightarrow>
   build_radar_chart pers m =
     Inr (map fst RADAR_ITEMS, map (radar_row m) (enumerate 0 pers),
          map (axis_meta_of m) RADAR_ITEMS)"
  by (simp add: build_radar_chart_def period_loop_eq)







lemma resolve_by_key:
  "resolve m keys = (case resolve_key m keys of None \<Rightarrow> None | Some key \<Rightarrow> m key)"
  by (induction keys) (auto split: option.splits)

lemma resolve_key_update:
  "resolve_key m keys = Some key \<Longrightarrow> resolve_key (m(key \<mapsto> v)) keys = Some key"
  by (induction keys) (auto split: if_splits)

lemma axis_values_series:
  "resolve m keys = Some series \<Longrightarrow> axis_values m keys = map entry_float series"
  by (simp add: axis_values_def entry_float_def)

lemma entry_value_series:
  "resolve m keys = Some series \<Longrightarrow>
   entry_value m keys i = (if i < length series then entry_float (series ! i) else Finite False 0)"
  by (auto simp: entry_value_def entry_float_def)

lemma exact_entry_scaled:
  assumes "exact_entry c e"
  shows "\<exists>s a. entry_float e = Finite s a \<and> 0 \<le> a \<and>
               entry_float (map_option (fmul (Finite False c)) e) = Finite s (c * a)"
proof (cases e)
  case None
  then show ?thesis
    by (intro exI [of _ False] exI [of _ 0]) (simp add: entry_float_def)
next
  case (Some x)
  with assms obtain s a where x: "x = Finite s a" and a: "0 \<le> a" and
    r: "round_binary64 (c * a) = Some (c * a)"
    by (cases x) (simp_all add: exact_entry_def)
  show ?thesis using a r by (simp add: Some x entry_float_def mk_float_def)
qed

lemma max_from_scaled:
  assumes "0 < c" and "list_all (exact_entry c) es"
  shows "\<exists>M. max_from (Finite False a) (map fabs (map entry_float es)) = Finite False M \<and>
             max_from (Finite False (c * a))
               (map fabs (map entry_float (scale_series (Finite False c) es))) =
               Finite False (c * M) \<and>
             a \<le> M \<and> (\<forall>e \<in> set es. mag (entry_float e) \<le> M)"
  using assms(2)
proof (induction es arbitrary: a)
  case Nil
  then show ?case by (simp add: scale_series_def)
next
  case (Cons e es)
  then have e: "exact_entry c e" and es: "list_all (exact_entry c) es" by simp_all
  from exact_entry_scaled [OF e] obtain s b where
    b: "entry_float e = Finite s b"
       "entry_float (map_option (fmul (Finite False c)) e) = Finite s (c * b)" by blast
  from Cons.IH [OF es, of "max a b"] obtain M where
    M: "max_from (Finite False (max a b)) (map fabs (map entry_float es)) = Finite False M"
       "max_from (Finite False (c * max a b))
          (map fabs (map entry_float (scale_series (Finite False c) es))) = Finite False (c * M)"
       "max a b \<le> M" "\<forall>e \<in> set es. mag (entry_float e) \<le> M" by blast
  have u: "(if fgt (fabs (entry_float e)) (Finite False a) then fabs (entry_float e)
            else Finite False a) = Finite False (max a b)"
    by (simp add: b signed_def max_def)
  have v: "(if fgt (fabs (entry_float (map_option (fmul (Finite False c)) e)))
                   (Finite False (c * a))
            then fabs (entry_float (map_option (fmul (Finite False c)) e))
            else Finite False (c * a)) = Finite False (c * max a b)"
    using assms(1) by (simp add: b signed_def max_def)
  have "max_from (Finite False a) (map fabs (map entry_float (e # es))) = Finite False M"
    using M(1) u by simp
  moreover have "max_from (Finite False (c * a))
          (map fabs (map entry_float (scale_series (Finite False c) (e # es)))) =
          Finite False (c * M)"
    using M(2) v by (simp add: scale_series_def)
  moreover have "a \<le> M" "mag (entry_float e) \<le> M" using M(3) by (simp_all add: b)
  ultimately show ?case using M(4) by auto
qed

lemma normalized_scaled:
  assumes "0 < c" and "list_all (exact_entry c) series" and
    "resolve m keys = Some series" and
    "resolve m' keys = Some (scale_series (Finite False c) series)"
  shows "entry_value m' keys i = fmul (Finite False c) (entry_value m keys i) \<and>
         normalized (entry_value m' keys i) (max_value (axis_meta_of m' (l, keys))) =
         normalized (entry_value m keys i) (max_value (axis_meta_of m (l, keys)))"
proof -
  let ?k = "Finite False c"
  let ?z = "Finite False 0"
  have len: "length (scale_series ?k series) = length series" by (simp add: scale_series_def)
  have "\<exists>s a. entry_value m keys i = Finite s a \<and> 0 \<le> a \<and>
              entry_value m' keys i = Finite s (c * a) \<and>
              (\<forall>M. (\<forall>e \<in> set series. mag (entry_float e) \<le> M) \<and> 0 \<le> M \<longrightarrow> a \<le> M)"
  proof (cases "i < length series")
    case True
    then have e: "exact_entry c (series ! i)" using assms(2) by (simp add: list_all_length)
    from exact_entry_scaled [OF e] obtain s a where
      ef: "entry_float (series ! i) = Finite s a" "0 \<le> a"
          "entry_float (map_option (fmul ?k) (series ! i)) = Finite s (c * a)" by blast
    have mem: "series ! i \<in> set series" using True by simp
    have bound: "\<forall>M. (\<forall>e \<in> set series. mag (entry_float e) \<le> M) \<and> 0 \<le> M \<longrightarrow> a \<le> M"
    proof (intro allI impI)
      fix M assume "(\<forall>e \<in> set series. mag (entry_float e) \<le> M) \<and> 0 \<le> M"
      then have "mag (entry_float (series ! i)) \<le> M" using mem by blast
      then show "a \<le> M" by (simp add: ef(1))
    qed
    show ?thesis
      using True ef bound
      by (intro exI [of _ s] exI [of _ a])
         (simp add: entry_value_series [OF assms(3)] entry_value_series [OF assms(4)] len
                    scale_series_def)
  next
    case False
    then show ?thesis
      by (intro exI [of _ False] exI [of _ 0])
         (simp add: entry_value_series [OF assms(3)] entry_value_series [OF assms(4)] len)
  qed
  then obtain s a where
    o: "entry_value m keys i = Finite s a" and a: "0 \<le> a" and
    o': "entry_value m' keys i = Finite s (c * a)" and
    le: "\<And>M. \<forall>e \<in> set series. mag (entry_float e) \<le> M \<Longrightarrow> 0 \<le> M \<Longrightarrow> a \<le> M"
    by blast
  have ex: "round_binary64 (c * a) = Some (c * a)"
  proof (cases "i < length series")
    case True
    then have e: "exact_entry c (series ! i)" using assms(2) by (simp add: list_all_length)
    show ?thesis
    proof (cases "series ! i")
      case None
      then have "a = 0" using o True by (simp add: entry_value_series [OF assms(3)] entry_float_def)
      then show ?thesis by (simp add: round_binary64_def)
    next
      case (Some x)
      then have "x = Finite s a"
        using o True by (simp add: entry_value_series [OF assms(3)] entry_float_def)
      then show ?thesis using e Some by (simp add: exact_entry_def)
    qed
  next
    case False
    then have "a = 0" using o by (simp add: entry_value_series [OF assms(3)])
    then show ?thesis by (simp add: round_binary64_def)
  qed
  have first: "entry_value m' keys i = fmul ?k (entry_value m keys i)"
    using ex by (simp add: o o' mk_float_def)
  have second: "normalized (entry_value m' keys i) (max_value (axis_meta_of m' (l, keys))) =
         normalized (entry_value m keys i) (max_value (axis_meta_of m (l, keys)))"
  proof (cases series)
    case Nil
    then show ?thesis
      by (simp add: axis_meta_of_def axis_values_series [OF assms(3)]
            axis_values_series [OF assms(4)] entry_value_series [OF assms(3)]
            entry_value_series [OF assms(4)] scale_series_def)
  next
    case (Cons e es)
    then have e: "exact_entry c e" and es: "list_all (exact_entry c) es"
      using assms(2) by simp_all
    from exact_entry_scaled [OF e] obtain t b where
      b: "entry_float e = Finite t b" "0 \<le> b"
         "entry_float (map_option (fmul ?k) e) = Finite t (c * b)" by blast
    from max_from_scaled [OF assms(1) es, of b] obtain M where
      M: "max_from (Finite False b) (map fabs (map entry_float es)) = Finite False M"
         "max_from (Finite False (c * b))
            (map fabs (map entry_float (scale_series ?k es))) = Finite False (c * M)"
         "b \<le> M" "\<forall>e \<in> set es. mag (entry_float e) \<le> M" by blast
    have mx: "max_default ?z (map fabs (axis_values m keys)) = Finite False M"
      using M(1) by (simp add: axis_values_series [OF assms(3)] Cons max_default_def b)
    have mx': "max_default ?z (map fabs (axis_values m' keys)) = Finite False (c * M)"
      using M(2)
      by (simp add: axis_values_series [OF assms(4)] Cons max_default_def b scale_series_def)
    have M0: "0 \<le> M" using b(2) M(3) by simp
    have aM: "a \<le> M"
    proof (rule le)
      show "\<forall>e \<in> set series. mag (entry_float e) \<le> M" using M(3) M(4) by (simp add: Cons b)
      show "0 \<le> M" by (rule M0)
    qed
    show ?thesis
    proof (cases "M = 0")
      case True
      then have "a = 0" using a aM by simp
      then show ?thesis by (simp add: o o' axis_meta_of_def mx mx' True)
    next
      case False
      then have "c * M \<noteq> 0" using assms(1) by simp
      then show ?thesis
        using False assms(1)
        by (simp add: o o' axis_meta_of_def mx mx' normalized_def normalize_def)
    qed
  qed
  show ?thesis using first second by blast
qed

lemma normalized_eq:
  "truthy mx \<Longrightarrow> truediv v mx = Some q \<Longrightarrow> normalized v mx = fmul q (Finite False 100)"
  by (simp add: normalized_def normalize_def)

lemma radar_cell:
  assumes "i < length pers" and "j < length RADAR_ITEMS"
  shows "rd_data (fst (snd (projr (build_radar_chart pers m))) ! i) ! j =
           normalized (entry_value m (snd (RADAR_ITEMS ! j)) i)
             (max_value (axis_meta_of m (RADAR_ITEMS ! j)))"
    and "originalData (fst (snd (projr (build_radar_chart pers m))) ! i) ! j =
           entry_value m (snd (RADAR_ITEMS ! j)) i"
proof -
  have "pers \<noteq> []" using assms(1) by auto
  then have b: "fst (snd (projr (build_radar_chart pers m))) =
                  map (radar_row m) (enumerate 0 pers)"
    by (simp add: build_radar_chart_eq)
  show "rd_data (fst (snd (projr (build_radar_chart pers m))) ! i) ! j =
           normalized (entry_value m (snd (RADAR_ITEMS ! j)) i)
             (max_value (axis_meta_of m (RADAR_ITEMS ! j)))"
    using assms by (simp add: b nth_enumerate_eq radar_row_def)
  show "originalData (fst (snd (projr (build_radar_chart pers m))) ! i) ! j =
           entry_value m (snd (RADAR_ITEMS ! j)) i"
    using assms by (simp add: b nth_enumerate_eq radar_row_def)
qed

section \<open>Evaluating the examples\<close>

text \<open>The definitions to unfold when an example is computed by the simplifier.\<close>

lemmas float_eval = py_float_def float_space_def isspace_def is_digit_def lower_def
  exponent_part_def digits_value_def pow10_def mk_float_def round_binary64_def ilog2_def
  pow2_def round_half_even_def compute_bitlen Let_def ascii_def
  floor_rat_divide_numeral floor_rat_one_divide_numeral


lemmas parse_eval = parse_csv_def nonblank_def process_row_def numeric_segment_def
  cell_value_def row_label_def setdefault_def initial_state_def strip_def charted_def
  dataset_of_def

lemma parse_padding_table: "parse_csv py_float padding_table = Inr padding_parsed"
  by (simp add: padding_table_def padding_parsed_def parse_eval float_eval)

lemma parse_alias_table: "parse_csv py_float alias_table = Inr alias_parsed"
  by (simp add: alias_table_def alias_parsed_def parse_eval float_eval)

lemma parse_overwrite_table: "parse_csv py_float overwrite_table = Inr overwrite_parsed"
  by (simp add: overwrite_table_def overwrite_parsed_def parse_eval float_eval)


section \<open>The claims\<close>

text \<open>
  C2 as stated: called with an empty dataset list, \<open>_build_dataset_options\<close> returns the
  empty string as highlight label and an empty option list. The code keeps the default
  label there, so the statement fails at the empty list.
\<close>

theorem C2_empty_highlight_counterexample:
  "\<not> (snd (build_dataset_options ([] :: nat chart_dataset list)) = [] \<and>
      fst (build_dataset_options ([] :: nat chart_dataset list)) = [])"
  by (simp add: build_dataset_options_def DEFAULT_HIGHLIGHT_LABEL_def)

text \<open>
  C2, amended: called with an empty dataset list, \<open>_build_dataset_options\<close> returns an
  empty option list and the default highlight label \<open>DEFAULT_HIGHLIGHT_LABEL\<close>, which is
  not the empty string.
\<close>

theorem C2_empty_datasets:
  "build_dataset_options ([] :: 'f chart_dataset list) = ([], DEFAULT_HIGHLIGHT_LABEL) \<and>
   DEFAULT_HIGHLIGHT_LABEL \<noteq> []"
  by (simp add: build_dataset_options_def DEFAULT_HIGHLIGHT_LABEL_def)

text \<open>
  C4: when the rows that survive the blank-row filter are exactly one header row with at
  least two cells, \<open>_parse_csv\<close> fails with the third error, not with the first or second.
\<close>

theorem C4_header_only:
  "filter nonblank reader_rows = [hdrs] \<Longrightarrow> 2 \<le> length hdrs \<Longrightarrow>
   parse_csv float_of reader_rows = Inl NoNumericDataError"
  by (simp add: parse_csv_def initial_state_def)

theorem C4_header_only_witness:
  "filter nonblank [[], [ascii ''Label'', ascii ''2021''], [ascii '' '', []]]
      = [[ascii ''Label'', ascii ''2021'']] \<and>
   2 \<le> length [ascii ''Label'', ascii ''2021''] \<and>
   parse_csv py_float [[], [ascii ''Label'', ascii ''2021''], [ascii '' '', []]]
      = Inl NoNumericDataError"
  using C4_header_only [of "[[], [ascii ''Label'', ascii ''2021''], [ascii '' '', []]]"
                           "[ascii ''Label'', ascii ''2021'']" py_float]
  by (simp add: nonblank_def strip_def ascii_def isspace_def)

text \<open>
  C5: after a successful parse there are as many periods as header cells but one, and
  every chart dataset has exactly that many data entries: it is built from the numeric
  segment of its row, which is the row's value cells padded on the right with empty
  (missing) cells when they are fewer than the periods, and the last cells, as many as
  there are periods, otherwise.
\<close>

theorem C5_dataset_length:
  assumes "parse_csv float_of reader_rows = Inr p"
  shows "length (periods p) = length (headers p) - 1 \<and>
         datasets p = map (dataset_of float_of (length (periods p)))
                        (filter (charted float_of (length (periods p)))
                           (tl (filter nonblank reader_rows))) \<and>
         (\<forall>d \<in> set (datasets p). length (data d) = length (periods p)) \<and>
         (\<forall>vs. length vs < length (periods p) \<longrightarrow>
               numeric_segment (length (periods p)) vs =
                 vs @ replicate (length (periods p) - length vs) []) \<and>
         (\<forall>vs. length (periods p) \<le> length vs \<longrightarrow>
               numeric_segment (length (periods p)) vs =
                 drop (length vs - length (periods p)) vs)"
proof -
  from assms obtain hdrs body where
    f: "filter nonblank reader_rows = hdrs # body" and l: "2 \<le> length hdrs" and
    h: "headers p = hdrs" and pe: "periods p = tl hdrs" and
    d: "datasets p = chart_datasets (foldl (process_row float_of (length hdrs - 1)) initial_state body)"
    by (rule parse_csv_Inr)
  have pc: "length (periods p) = length hdrs - 1" using pe by simp
  have pos: "0 < length (periods p)" using pc l by simp
  have ds: "datasets p = map (dataset_of float_of (length (periods p)))
                        (filter (charted float_of (length (periods p))) body)"
    by (simp add: d pc foldl_datasets initial_state_def)
  have len: "\<forall>d \<in> set (datasets p). length (data d) = length (periods p)"
    using pos by (auto simp: ds dataset_of_def length_numeric_segment)
  have short: "\<forall>vs. length vs < length (periods p) \<longrightarrow>
               numeric_segment (length (periods p)) vs =
                 vs @ replicate (length (periods p) - length vs) []"
    by (simp add: numeric_segment_def)
  have long: "\<forall>vs. length (periods p) \<le> length vs \<longrightarrow>
               numeric_segment (length (periods p)) vs =
                 drop (length vs - length (periods p)) vs"
    using pos by (simp add: numeric_segment_def)
  show ?thesis using pc h ds f len short long by simp
qed

theorem C5_dataset_length_witness:
  "parse_csv py_float padding_table = Inr padding_parsed \<and>
   length (periods padding_parsed) = length (headers padding_parsed) - 1 \<and>
   datasets padding_parsed =
     map (dataset_of py_float (length (periods padding_parsed)))
       (filter (charted py_float (length (periods padding_parsed)))
          (tl (filter nonblank padding_table))) \<and>
   map data (datasets padding_parsed) =
     [[Some (Finite False 1), None], [Some (Finite False 2), Some (Finite False 3)]] \<and>
   length (periods padding_parsed) = 2"
proof -
  have h: "parse_csv py_float padding_table = Inr padding_parsed"
    by (rule parse_padding_table)
  have e: "map data (datasets padding_parsed) =
     [[Some (Finite False 1), None], [Some (Finite False 2), Some (Finite False 3)]] \<and>
     length (periods padding_parsed) = 2"
    by (simp add: padding_parsed_def)
  from h e C5_dataset_length [OF h] show ?thesis by blast
qed

text \<open>
  C1 as stated: once a descriptor key is registered, no later write of the parse changes
  its mapping. In \<open>overwrite_table\<close> the first data row registers the descriptor \<open>PQ\<close>
  with its series \<open>[100.0]\<close>; the next row has the label \<open>PQ\<close>, and after the parse
  \<open>PQ\<close> maps to that row's series \<open>[5.0]\<close>.
\<close>

theorem C1_descriptor_overwritten_counterexample:
  "row_lookup (foldl (process_row py_float 1) initial_state (take 1 (tl overwrite_table)))
     (ascii ''PQ'') = Some [Some (Finite False 100)] \<and>
   parse_csv py_float overwrite_table = Inr overwrite_parsed \<and>
   lookup_of overwrite_parsed (ascii ''PQ'') = Some [Some (Finite False 5)]"
  using parse_overwrite_table
  by (simp add: overwrite_table_def overwrite_parsed_def parse_eval float_eval)

text \<open>
  C1, amended: a key that \<open>row_lookup\<close> holds after some of the data rows keeps its
  series to the end of the parse unless a later row that gives a chart dataset has the key
  as its label. So no later row overwrites it by registering the same string as a
  descriptor; only the unconditional write under a row's own label can replace it.
\<close>

theorem C1_descriptor_kept:
  assumes "parse_csv float_of reader_rows = Inr p"
    and "filter nonblank reader_rows = hdrs # earlier @ later"
    and "row_lookup (foldl (process_row float_of (length hdrs - 1)) initial_state earlier) k
           = Some series"
    and "list_all (\<lambda>row. \<not> (charted float_of (length hdrs - 1) row \<and> row_label (hd row) = k))
           later"
  shows "lookup_of p k = Some series"
proof -
  from assms(1) obtain hdrs' body where
    f: "filter nonblank reader_rows = hdrs' # body" and
    lk: "lookup_of p = row_lookup (foldl (process_row float_of (length hdrs' - 1)) initial_state body)"
    by (rule parse_csv_Inr)
  from f assms(2) have e: "hdrs' = hdrs" "body = earlier @ later" by simp_all
  show ?thesis
    unfolding lk e foldl_append
    by (rule foldl_keep [OF assms(3) assms(4)])
qed

theorem C1_descriptor_kept_witness:
  "parse_csv py_float alias_table = Inr alias_parsed \<and>
   filter nonblank alias_table =
     [ascii ''Label'', ascii ''2021''] # [[ascii ''Rev'', ascii ''PQ'', ascii ''100'']] @
       [[ascii ''Cost'', ascii ''PQ'', ascii ''7'']] \<and>
   row_lookup (foldl (process_row py_float (length [ascii ''Label'', ascii ''2021''] - 1))
                 initial_state [[ascii ''Rev'', ascii ''PQ'', ascii ''100'']]) (ascii ''PQ'')
     = Some [Some (Finite False 100)] \<and>
   list_all (\<lambda>row. \<not> (charted py_float (length [ascii ''Label'', ascii ''2021''] - 1) row \<and>
                       row_label (hd row) = ascii ''PQ''))
     [[ascii ''Cost'', ascii ''PQ'', ascii ''7'']] \<and>
   lookup_of alias_parsed (ascii ''PQ'') = Some [Some (Finite False 100)]"
proof -
  have h1: "parse_csv py_float alias_table = Inr alias_parsed" by (rule parse_alias_table)
  have h2: "filter nonblank alias_table =
     [ascii ''Label'', ascii ''2021''] # [[ascii ''Rev'', ascii ''PQ'', ascii ''100'']] @
       [[ascii ''Cost'', ascii ''PQ'', ascii ''7'']]"
    by (simp add: alias_table_def nonblank_def strip_def ascii_def isspace_def)
  have h3: "row_lookup (foldl (process_row py_float (length [ascii ''Label'', ascii ''2021''] - 1))
                 initial_state [[ascii ''Rev'', ascii ''PQ'', ascii ''100'']]) (ascii ''PQ'')
     = Some [Some (Finite False 100)]"
    by (simp add: parse_eval float_eval)
  have h4: "list_all (\<lambda>row. \<not> (charted py_float (length [ascii ''Label'', ascii ''2021''] - 1) row \<and>
                       row_label (hd row) = ascii ''PQ''))
     [[ascii ''Cost'', ascii ''PQ'', ascii ''7'']]"
    by (simp add: row_label_def strip_def ascii_def isspace_def)
  from h1 h2 h3 h4 C1_descriptor_kept [OF h1 h2 h3 h4] show ?thesis by blast
qed

text \<open>
  C6 as stated: every display row's values are aligned to the numeric segment and are as
  many as the periods, padded when the source row is shorter. In \<open>padding_table\<close> there
  are two periods, and the display row of the first data row has the one value cell of
  its source row.
\<close>

theorem C6_rows_not_padded_counterexample:
  "parse_csv py_float padding_table = Inr padding_parsed \<and>
   rows padding_parsed ! 0 = [ascii ''A'', ascii ''1''] \<and>
   length (tl (rows padding_parsed ! 0)) = 1 \<and>
   length (periods padding_parsed) = 2"
  using parse_padding_table by (simp add: padding_parsed_def)

text \<open>
  C6, amended: after a successful parse the display rows are, in order, the data rows of
  the table with the first cell replaced by the row's label and all value cells kept as
  they are, neither padded nor cut: the values of a display row are as many as the cells
  of its source row but one.
\<close>

theorem C6_rows_verbatim:
  assumes "parse_csv float_of reader_rows = Inr p"
  shows "rows p = map (\<lambda>row. row_label (hd row) # tl row) (tl (filter nonblank reader_rows)) \<and>
         length (rows p) = length (tl (filter nonblank reader_rows)) \<and>
         (\<forall>i < length (rows p).
            tl (rows p ! i) = tl (tl (filter nonblank reader_rows) ! i) \<and>
            length (tl (rows p ! i)) = length (tl (filter nonblank reader_rows) ! i) - 1)"
proof -
  from assms obtain hdrs body where
    f: "filter nonblank reader_rows = hdrs # body" and
    r: "rows p = table_rows (foldl (process_row float_of (length hdrs - 1)) initial_state body)"
    by (rule parse_csv_Inr)
  have "set body \<subseteq> set (filter nonblank reader_rows)" using f by auto
  then have "\<forall>row \<in> set body. row \<noteq> []" by (auto dest: nonblank_nonempty)
  then have "filter (\<lambda>row. row \<noteq> []) body = body" by (simp add: filter_id_conv)
  then have e: "rows p = map (\<lambda>row. row_label (hd row) # tl row) body"
    by (simp add: r foldl_table initial_state_def)
  show ?thesis using e f by simp
qed

theorem C6_rows_verbatim_witness:
  "parse_csv py_float padding_table = Inr padding_parsed \<and>
   map tl (rows padding_parsed) = map tl (tl (filter nonblank padding_table)) \<and>
   map tl (rows padding_parsed) =
     [[ascii ''1''], [ascii ''m'', ascii ''1'', ascii ''2'', ascii '' 3 '']]"
proof -
  have h: "parse_csv py_float padding_table = Inr padding_parsed" by (rule parse_padding_table)
  have e: "map tl (rows padding_parsed) =
     [[ascii ''1''], [ascii ''m'', ascii ''1'', ascii ''2'', ascii '' 3 '']]"
    by (simp add: padding_parsed_def)
  have "rows padding_parsed =
          map (\<lambda>row. row_label (hd row) # tl row) (tl (filter nonblank padding_table))"
    using C6_rows_verbatim [OF h] by blast
  then have "map tl (rows padding_parsed) = map tl (tl (filter nonblank padding_table))"
    by (simp add: comp_def)
  with h e show ?thesis by blast
qed



text \<open>
  C9: with an empty list of periods \<open>_build_radar_chart\<close> returns three empty lists, for
  every \<open>row_lookup\<close>, and raises nothing.
\<close>

theorem C9_empty_periods:
  "build_radar_chart [] m = Inr ([], [], [])"
  by (simp add: build_radar_chart_def)

theorem C9_empty_periods_witness:
  "build_radar_chart [] (lookup_of padding_parsed) = Inr ([], [], [])"
  by (rule C9_empty_periods)

text \<open>
  C10: a row none of whose numeric-segment cells gives a number leaves \<open>row_lookup\<close> as
  it was, whatever its label and its descriptor cells are.
\<close>

theorem C10_uncharted_row_keeps_lookup:
  "\<not> list_ex (\<lambda>c. cell_value float_of c \<noteq> None) (numeric_segment pc (tl row)) \<Longrightarrow>
   row_lookup (process_row float_of pc st row) = row_lookup st"
  by (simp add: process_row_uncharted charted_def)

theorem C10_uncharted_row_keeps_lookup_witness:
  "\<not> list_ex (\<lambda>c. cell_value py_float c \<noteq> None)
       (numeric_segment 2 (tl [ascii ''Y'', ascii ''PQ'', ascii ''a'', ascii ''b''])) \<and>
   row_lookup (process_row py_float 2 \<lparr>table_rows = [], chart_datasets = [],
                                        row_lookup = lookup_of padding_parsed\<rparr>
                 [ascii ''Y'', ascii ''PQ'', ascii ''a'', ascii ''b'']) =
   lookup_of padding_parsed"
proof -
  have h: "\<not> list_ex (\<lambda>c. cell_value py_float c \<noteq> None)
       (numeric_segment 2 (tl [ascii ''Y'', ascii ''PQ'', ascii ''a'', ascii ''b'']))"
    by (simp add: parse_eval float_eval)
  from h C10_uncharted_row_keeps_lookup [OF h, of "\<lparr>table_rows = [], chart_datasets = [],
                                        row_lookup = lookup_of padding_parsed\<rparr>"]
  show ?thesis by simp
qed




text \<open>
  C7 as stated: multiplying the resolved series of an axis entry by entry by a positive
  constant leaves the axis's normalized values unchanged. With the series \<open>[3.0, 4.0]\<close>
  under \<open>P\<close> the first normalized value of the first axis is \<open>75.0\<close>; after the series
  is multiplied by the float \<open>0.1\<close> it is \<open>[0.30000000000000004, 0.4]\<close> and the value is
  \<open>75.00000000000001\<close>: the products are rounded, and so is the quotient.
\<close>

theorem C7_rounding_counterexample:
  "is_float tenth \<and> fgt tenth (Finite False 0) \<and>
   resolve_key ratio_lookup (snd (RADAR_ITEMS ! 0)) = Some (ascii ''P'') \<and>
   ratio_lookup (ascii ''P'') = Some [Some (Finite False 3), Some (Finite False 4)] \<and>
   scale_series tenth [Some (Finite False 3), Some (Finite False 4)] =
     [Some (Finite False (1351079888211149 / 4503599627370496)),
      Some (Finite False (3602879701896397 / 9007199254740992))] \<and>
   rd_data (fst (snd (projr (build_radar_chart [ascii ''2021''] ratio_lookup))) ! 0) ! 0 =
     Finite False 75 \<and>
   rd_data (fst (snd (projr (build_radar_chart [ascii ''2021'']
       (ratio_lookup(ascii ''P'' \<mapsto>
          scale_series tenth [Some (Finite False 3), Some (Finite False 4)]))))) ! 0) ! 0 =
     Finite False (5277655813324801 / 70368744177664)"
proof -
  let ?scaled = "[Some (Finite False (1351079888211149 / 4503599627370496)),
                  Some (Finite False (3602879701896397 / 9007199254740992))]"
  have k: "is_float tenth \<and> fgt tenth (Finite False 0)"
    by (simp add: tenth_def float_eval signed_def)
  have rk: "resolve_key ratio_lookup (snd (RADAR_ITEMS ! 0)) = Some (ascii ''P'')"
    by (simp add: ratio_lookup_def RADAR_ITEMS_def ascii_def)
  have lk: "ratio_lookup (ascii ''P'') = Some [Some (Finite False 3), Some (Finite False 4)]"
    by (simp add: ratio_lookup_def)
  have m3: "fmul tenth (Finite False 3) = Finite False (1351079888211149 / 4503599627370496)"
    by (simp add: tenth_def float_eval)
  have m4: "fmul tenth (Finite False 4) = Finite False (3602879701896397 / 9007199254740992)"
    by (simp add: tenth_def float_eval)
  have sc: "scale_series tenth [Some (Finite False 3), Some (Finite False 4)] = ?scaled"
    by (simp add: scale_series_def m3 m4)
  have q0: "truediv (Finite False 3) (Finite False 4) = Some (Finite False (3 / 4))"
    by (simp add: float_eval)
  have p0: "fmul (Finite False (3 / 4)) (Finite False 100) = Finite False 75"
    by (simp add: float_eval)
  have q1: "truediv (Finite False (1351079888211149 / 4503599627370496))
                    (Finite False (3602879701896397 / 9007199254740992)) =
              Some (Finite False (6755399441055745 / 9007199254740992))"
    by (simp add: float_eval)
  have p1: "fmul (Finite False (6755399441055745 / 9007199254740992)) (Finite False 100) =
              Finite False (5277655813324801 / 70368744177664)"
    by (simp add: float_eval)
  have e0: "entry_value ratio_lookup (snd (RADAR_ITEMS ! 0)) 0 = Finite False 3"
    by (simp add: ratio_lookup_def RADAR_ITEMS_def entry_value_def ascii_def)
  have v0: "max_value (axis_meta_of ratio_lookup (RADAR_ITEMS ! 0)) = Finite False 4"
    by (simp add: ratio_lookup_def RADAR_ITEMS_def axis_meta_of_def axis_values_def
          max_default_def signed_def ascii_def)
  have e1: "entry_value (ratio_lookup(ascii ''P'' \<mapsto> ?scaled)) (snd (RADAR_ITEMS ! 0)) 0 =
              Finite False (1351079888211149 / 4503599627370496)"
    by (simp add: ratio_lookup_def RADAR_ITEMS_def entry_value_def ascii_def)
  have v1: "max_value (axis_meta_of (ratio_lookup(ascii ''P'' \<mapsto> ?scaled))
                         (RADAR_ITEMS ! 0)) =
              Finite False (3602879701896397 / 9007199254740992)"
    by (simp add: ratio_lookup_def RADAR_ITEMS_def axis_meta_of_def axis_values_def
          max_default_def signed_def ascii_def)
  have n0: "normalized (Finite False 3) (Finite False 4) = Finite False 75"
    using normalized_eq [OF _ q0] p0 by simp
  have n1: "normalized (Finite False (1351079888211149 / 4503599627370496))
                       (Finite False (3602879701896397 / 9007199254740992)) =
              Finite False (5277655813324801 / 70368744177664)"
    using normalized_eq [OF _ q1] p1 by simp
  have i0: "0 < length [ascii ''2021'']" and j0: "0 < length RADAR_ITEMS"
    by (simp_all add: RADAR_ITEMS_def)
  have a: "rd_data (fst (snd (projr (build_radar_chart [ascii ''2021''] ratio_lookup))) ! 0) ! 0
             = Finite False 75"
    unfolding radar_cell(1) [OF i0 j0] e0 v0 by (rule n0)
  have b: "rd_data (fst (snd (projr (build_radar_chart [ascii ''2021'']
              (ratio_lookup(ascii ''P'' \<mapsto> ?scaled))))) ! 0) ! 0 =
             Finite False (5277655813324801 / 70368744177664)"
    unfolding radar_cell(1) [OF i0 j0] e1 v1 by (rule n1)
  show ?thesis unfolding sc using k rk lk a b by simp
qed

text \<open>
  C7, amended: when the series an axis resolves to holds only finite floats or \<open>None\<close>
  and is multiplied entry by entry by a positive finite float whose product with each
  entry is exact (no rounding, overflow or underflow, as for a power of two in range),
  all other entries of \<open>row_lookup\<close> unchanged, then \<open>_build_radar_chart\<close> returns, for
  every list of periods, datasets whose normalized values on that axis are the same as
  before and whose \<open>originalData\<close> on that axis are the former ones multiplied by the
  constant.
\<close>

theorem C7_exact_scaling:
  assumes "j < length RADAR_ITEMS"
    and "resolve_key m (snd (RADAR_ITEMS ! j)) = Some key"
    and "m key = Some series"
    and "0 < c"
    and "list_all (exact_entry c) series"
  shows "\<exists>labels ds meta labels' ds' meta'.
           build_radar_chart pers m = Inr (labels, ds, meta) \<and>
           build_radar_chart pers (m(key \<mapsto> scale_series (Finite False c) series)) =
             Inr (labels', ds', meta') \<and>
           length ds = length pers \<and> length ds' = length pers \<and>
           (\<forall>i < length pers.
              rd_data (ds' ! i) ! j = rd_data (ds ! i) ! j \<and>
              originalData (ds' ! i) ! j = fmul (Finite False c) (originalData (ds ! i) ! j))"
proof (cases "pers = []")
  case True
  then show ?thesis by (simp add: build_radar_chart_def)
next
  case False
  let ?m' = "m(key \<mapsto> scale_series (Finite False c) series)"
  let ?keys = "snd (RADAR_ITEMS ! j)"
  let ?ds = "map (radar_row m) (enumerate 0 pers)"
  let ?ds' = "map (radar_row ?m') (enumerate 0 pers)"
  have r: "resolve m ?keys = Some series"
    by (simp add: resolve_by_key assms(2) assms(3))
  have r': "resolve ?m' ?keys = Some (scale_series (Finite False c) series)"
    by (simp add: resolve_by_key resolve_key_update [OF assms(2)])
  have "rd_data (?ds' ! i) ! j = rd_data (?ds ! i) ! j \<and>
        originalData (?ds' ! i) ! j = fmul (Finite False c) (originalData (?ds ! i) ! j)"
    if i: "i < length pers" for i
  proof -
    from normalized_scaled [OF assms(4) assms(5) r r', of i "fst (RADAR_ITEMS ! j)",
                            unfolded prod.collapse]
    have n: "entry_value ?m' ?keys i = fmul (Finite False c) (entry_value m ?keys i)"
      "normalized (entry_value ?m' ?keys i) (max_value (axis_meta_of ?m' (RADAR_ITEMS ! j))) =
       normalized (entry_value m ?keys i) (max_value (axis_meta_of m (RADAR_ITEMS ! j)))"
      by blast+
    have "rd_data (?ds' ! i) ! j = rd_data (?ds ! i) ! j"
      using i assms(1) by (simp add: nth_enumerate_eq radar_row_def n(2))
    moreover have
      "originalData (?ds' ! i) ! j = fmul (Finite False c) (originalData (?ds ! i) ! j)"
      using i assms(1) by (simp add: nth_enumerate_eq radar_row_def n(1))
    ultimately show ?thesis by blast
  qed
  then show ?thesis
    using False
    by (intro exI [of _ "map fst RADAR_ITEMS"] exI [of _ ?ds] exI [of _ ?ds']
              exI [of _ "map (axis_meta_of m) RADAR_ITEMS"]
              exI [of _ "map (axis_meta_of ?m') RADAR_ITEMS"])
       (simp add: build_radar_chart_eq)
qed

theorem C7_exact_scaling_witness:
  "0 < length RADAR_ITEMS \<and>
   resolve_key signed_lookup (snd (RADAR_ITEMS ! 0)) = Some (ascii ''P'') \<and>
   signed_lookup (ascii ''P'') = Some [Some (Finite True 1), None, Some (Finite False 3)] \<and>
   (0::rat) < 2 \<and>
   list_all (exact_entry 2) [Some (Finite True 1), None, Some (Finite False 3)] \<and>
   rd_data (fst (snd (projr (build_radar_chart [ascii ''a'', ascii ''b'']
       (signed_lookup(ascii ''P'' \<mapsto>
          scale_series (Finite False 2)
            [Some (Finite True 1), None, Some (Finite False 3)]))))) ! 0) ! 0 =
   rd_data (fst (snd (projr (build_radar_chart [ascii ''a'', ascii ''b'']
                               signed_lookup))) ! 0) ! 0 \<and>
   originalData (fst (snd (projr (build_radar_chart [ascii ''a'', ascii ''b'']
       (signed_lookup(ascii ''P'' \<mapsto>
          scale_series (Finite False 2)
            [Some (Finite True 1), None, Some (Finite False 3)]))))) ! 0) ! 0 =
   fmul (Finite False 2)
     (originalData (fst (snd (projr (build_radar_chart [ascii ''a'', ascii ''b'']
                                       signed_lookup))) ! 0) ! 0)"
proof -
  let ?series = "[Some (Finite True 1), None, Some (Finite False 3)]"
  let ?pers = "[ascii ''a'', ascii ''b'']"
  have h1: "0 < length RADAR_ITEMS" by (simp add: RADAR_ITEMS_def)
  have h2: "resolve_key signed_lookup (snd (RADAR_ITEMS ! 0)) = Some (ascii ''P'')"
    by (simp add: signed_lookup_def RADAR_ITEMS_def ascii_def)
  have h3: "signed_lookup (ascii ''P'') = Some ?series" by (simp add: signed_lookup_def)
  have h4: "(0::rat) < 2" by simp
  have h5: "list_all (exact_entry 2) ?series" by (simp add: exact_entry_def float_eval)
  from C7_exact_scaling [OF h1 h2 h3 h4 h5, of ?pers]
  obtain labels ds meta labels' ds' meta' where
    b: "build_radar_chart ?pers signed_lookup = Inr (labels, ds, meta)" and
    b': "build_radar_chart ?pers
           (signed_lookup(ascii ''P'' \<mapsto> scale_series (Finite False 2) ?series)) =
         Inr (labels', ds', meta')" and
    p: "\<forall>i < length ?pers.
          rd_data (ds' ! i) ! 0 = rd_data (ds ! i) ! 0 \<and>
          originalData (ds' ! i) ! 0 = fmul (Finite False 2) (originalData (ds ! i) ! 0)"
    by blast
  have "rd_data (ds' ! 0) ! 0 = rd_data (ds ! 0) ! 0 \<and>
        originalData (ds' ! 0) ! 0 = fmul (Finite False 2) (originalData (ds ! 0) ! 0)"
    using p by simp
  then show ?thesis using h1 h2 h3 h5 by (simp add: b b')
qed

end
